theory Spec2Isabelle
  imports Complex_Main
begin

section \<open>OCitySMap 2: the rendering pipeline of \<^verbatim>\<open>ocitysmap2/__init__.py\<close>\<close>

text \<open>
  The module is Python 2. Exceptions are values of the type \<open>error\<close>; a function that can
  raise returns \<open>error + 'a\<close> with \<open>Inl\<close> for the exception. Python byte strings are
  \<open>string\<close>. Python floats are only stored and handed on by this module (no float
  arithmetic is done here), so a float is modelled by the real number its literal denotes.
\<close>

subsection \<open>Exceptions and Python helpers\<close>

datatype error =
    AssertionError string
  | TypeError string
  | ValueError string
  | LookupError string
  | IndexError
  | KeyError
  | AttributeError
  | NoOptionError
  | NoSectionError
  | OSError string
  | ExternalError string

definition bnd :: "error + 'a \<Rightarrow> ('a \<Rightarrow> error + 'b) \<Rightarrow> error + 'b" where
  "bnd m f = (case m of Inl e \<Rightarrow> Inl e | Inr x \<Rightarrow> f x)"

text \<open>\<^verbatim>\<open>str.lower()\<close> and \<^verbatim>\<open>str.upper()\<close> on byte strings: only ASCII letters change.\<close>

definition lower_char :: "char \<Rightarrow> char" where
  "lower_char c =
     (case map_of (zip ''ABCDEFGHIJKLMNOPQRSTUVWXYZ'' ''abcdefghijklmnopqrstuvwxyz'') c of
        None \<Rightarrow> c | Some l \<Rightarrow> l)"

definition upper_char :: "char \<Rightarrow> char" where
  "upper_char c =
     (case map_of (zip ''abcdefghijklmnopqrstuvwxyz'' ''ABCDEFGHIJKLMNOPQRSTUVWXYZ'') c of
        None \<Rightarrow> c | Some u \<Rightarrow> u)"

definition lower :: "string \<Rightarrow> string" where
  "lower s = map lower_char s"

definition upper :: "string \<Rightarrow> string" where
  "upper s = map upper_char s"

subsection \<open>Stylesheet\<close>

text \<open>
  \<^verbatim>\<open>ConfigParser.RawConfigParser\<close> is library code: the parser is taken as the two
  operations the module calls on it. So are the casts \<^verbatim>\<open>int\<close> and \<^verbatim>\<open>float\<close> applied
  to option strings (\<^verbatim>\<open>str\<close> applied to a string is the identity).
\<close>

record config_parser =
  p_get :: "string \<Rightarrow> string \<Rightarrow> error + string"
  p_has_option :: "string \<Rightarrow> string \<Rightarrow> bool"

record casts =
  int_of_str :: "string \<Rightarrow> error + int"
  float_of_str :: "string \<Rightarrow> error + real"

record stylesheet =
  name :: "string option"
  path :: "string option"
  description :: string
  zoom_level :: int
  grid_line_color :: string
  grid_line_alpha :: real
  grid_line_width :: int
  shade_color :: string
  shade_alpha :: real

text \<open>\<^verbatim>\<open>Stylesheet.__init__\<close>\<close>

definition Stylesheet :: stylesheet where
  "Stylesheet =
     \<lparr> name = None, path = None, description = '''', zoom_level = 16,
       grid_line_color = ''black'', grid_line_alpha = 0.5, grid_line_width = 3,
       shade_color = ''black'', shade_alpha = 0.1 \<rparr>"

text \<open>
  The inner function \<^verbatim>\<open>assign_if_present(key, cast_fn)\<close>: the value that the attribute
  \<open>key\<close> holds afterwards, \<open>cur\<close> being the value it holds before.
\<close>

definition assign_if_present ::
  "config_parser \<Rightarrow> string \<Rightarrow> string \<Rightarrow> (string \<Rightarrow> error + 'a) \<Rightarrow> 'a \<Rightarrow> error + 'a" where
  "assign_if_present parser section_name key cast_fn cur =
     (if p_has_option parser section_name key
      then bnd (p_get parser section_name key) cast_fn
      else Inr cur)"

definition create_from_config_section ::
  "casts \<Rightarrow> config_parser \<Rightarrow> string \<Rightarrow> error + stylesheet" where
  "create_from_config_section cs parser section_name =
     (let s = Stylesheet in
      bnd (p_get parser section_name ''name'') (\<lambda>n.
      bnd (p_get parser section_name ''path'') (\<lambda>p.
      bnd (assign_if_present parser section_name ''description'' Inr (description s)) (\<lambda>d.
      bnd (assign_if_present parser section_name ''zoom_level'' (int_of_str cs) (zoom_level s)) (\<lambda>z.
      bnd (assign_if_present parser section_name ''grid_line_color'' Inr (grid_line_color s)) (\<lambda>gc.
      bnd (assign_if_present parser section_name ''grid_line_alpha'' (float_of_str cs) (grid_line_alpha s)) (\<lambda>ga.
      bnd (assign_if_present parser section_name ''grid_line_width'' (int_of_str cs) (grid_line_width s)) (\<lambda>gw.
      bnd (assign_if_present parser section_name ''shade_color'' Inr (shade_color s)) (\<lambda>sc.
      bnd (assign_if_present parser section_name ''shade_alpha'' (float_of_str cs) (shade_alpha s)) (\<lambda>sa.
      Inr (s\<lparr> name := Some n, path := Some p, description := d, zoom_level := z,
              grid_line_color := gc, grid_line_alpha := ga, grid_line_width := gw,
              shade_color := sc, shade_alpha := sa \<rparr>)))))))))))"

text \<open>\<^verbatim>\<open>OCitySMap.get_stylesheet_by_name\<close>, over the registry list.\<close>

fun get_stylesheet_by_name :: "stylesheet list \<Rightarrow> string \<Rightarrow> error + stylesheet" where
  "get_stylesheet_by_name [] nm =
     Inl (LookupError (''The requested stylesheet '' @ nm @ '' was not found!''))"
| "get_stylesheet_by_name (style # rest) nm =
     (if name style = Some nm then Inr style else get_stylesheet_by_name rest nm)"

subsection \<open>The world outside the module\<close>

text \<open>
  The module drives collaborators that are not part of it: the translation installer, the
  database, \<^verbatim>\<open>coords.BoundingBox\<close>, \<^verbatim>\<open>tempfile\<close>, the layout renderer, the street index and
  the cairo surfaces. Every call into one of them is recorded in \<open>calls\<close>, in order. The
  world also holds the temporary directories on disk (each with the entries in it), the
  names of the files written outside them, and the records handed to the logger
  (level, format string, arguments).
\<close>

datatype level = DEBUG | INFO | ERROR

datatype fsnode = File | Dir "(string \<times> fsnode) list"

datatype sqlval = SqlNull | SqlInt int | SqlText string

datatype call =
    Install_translation "string option"
  | Get_db
  | Cursor
  | Execute "string list"
  | Fetchall
  | Parse_wkt string
  | Mkdtemp
  | Get_renderer_class_by_name string
  | Renderer_init string
  | Create_map_canvas
  | Get_actual_bounding_box
  | Render_shade "string option"
  | Canvas_render
  | StreetIndex "string option"
  | StreetIndexRenderer
  | ImageSurface int
  | SVGSurface string
  | GzipFile string
  | SVGSurface_on_stream
  | PDFSurface string
  | PSSurface string
  | Create_rendering_session real
  | Renderer_render
  | Write_to_png string
  | Surface_finish

record world =
  tmp :: "string \<Rightarrow> (string \<times> fsnode) list option"
  files :: "string list"
  logged :: "(level \<times> string \<times> string list) list"
  calls :: "call list"

text \<open>
  What the collaborators do is a parameter: whether a call raises (given the calls made
  before it), what a call of the renderer leaves in the workspace it was created with,
  and the values that are read back. \<^verbatim>\<open>coords.BoundingBox\<close> is not in the module; a
  bounding box is a value of the type \<open>'b\<close> with the three operations the module calls.
\<close>

record 'b env =
  raises :: "call list \<Rightarrow> call \<Rightarrow> error option"
  writes :: "call list \<Rightarrow> call \<Rightarrow> (string \<times> fsnode) list \<Rightarrow> (string \<times> fsnode) list"
  isrtl :: bool
  language_code :: string
  rows :: "string list \<Rightarrow> sqlval list list"
  parse_wkt :: "string \<Rightarrow> 'b"
  create_expanded :: "'b \<Rightarrow> real \<Rightarrow> real \<Rightarrow> 'b"
  as_wkt :: "'b \<Rightarrow> bool \<Rightarrow> string"
  mkdtemp_name :: string
  actual_bounding_box :: 'b
  PT_PER_INCH :: real
  parser :: config_parser
  cast :: casts

definition wbind ::
  "(world \<Rightarrow> (error + 'a) \<times> world) \<Rightarrow> ('a \<Rightarrow> world \<Rightarrow> (error + 'c) \<times> world) \<Rightarrow>
   world \<Rightarrow> (error + 'c) \<times> world" where
  "wbind m f w = (case m w of (Inl e, w') \<Rightarrow> (Inl e, w') | (Inr x, w') \<Rightarrow> f x w')"

definition wreturn :: "'a \<Rightarrow> world \<Rightarrow> (error + 'a) \<times> world" where
  "wreturn x w = (Inr x, w)"

definition wraise :: "error \<Rightarrow> world \<Rightarrow> (error + 'a) \<times> world" where
  "wraise e w = (Inl e, w)"

definition wlog :: "level \<Rightarrow> string \<Rightarrow> string list \<Rightarrow> world \<Rightarrow> (error + unit) \<times> world" where
  "wlog lvl fmt args w = (Inr (), w\<lparr>logged := logged w @ [(lvl, fmt, args)]\<rparr>)"

text \<open>
  A call into a collaborator is recorded, and a call of the renderer (\<open>ws\<close> is the
  workspace the renderer holds) may change what is in that workspace; this happens whether
  the call then raises or returns.
\<close>

definition after_call :: "'b env \<Rightarrow> string option \<Rightarrow> call \<Rightarrow> world \<Rightarrow> world" where
  "after_call env ws c w =
     w\<lparr>tmp := (case ws of None \<Rightarrow> tmp w
               | Some d \<Rightarrow> (case tmp w d of None \<Rightarrow> tmp w
                            | Some es \<Rightarrow> (tmp w)(d \<mapsto> writes env (calls w) c es))),
       calls := calls w @ [c]\<rparr>"

definition ext :: "'b env \<Rightarrow> string option \<Rightarrow> call \<Rightarrow> world \<Rightarrow> (error + unit) \<times> world" where
  "ext env ws c w =
     (case raises env (calls w) c of
        Some e \<Rightarrow> (Inl e, after_call env ws c w)
      | None \<Rightarrow> (Inr (), after_call env ws c w))"

text \<open>A call that creates or truncates the file \<open>fn\<close> when it does not raise.\<close>

definition add_file :: "string \<Rightarrow> world \<Rightarrow> world" where
  "add_file fn w = w\<lparr>files := (if fn \<in> set (files w) then files w else files w @ [fn])\<rparr>"

definition ext_file :: "'b env \<Rightarrow> call \<Rightarrow> string \<Rightarrow> world \<Rightarrow> (error + unit) \<times> world" where
  "ext_file env c fn w =
     (case ext env None c w of
        (Inl e, w') \<Rightarrow> (Inl e, w')
      | (Inr u, w') \<Rightarrow> (Inr u, add_file fn w'))"

subsection \<open>RenderingConfiguration\<close>

record 'b rendering_configuration =
  title :: "string option"
  osmid :: "int option"
  bounding_box :: "'b option"
  language :: "string option"
  stylesheet :: "stylesheet option"
  paper_width_mm :: "real option"
  paper_height_mm :: "real option"
  rtl :: "bool option"

text \<open>\<^verbatim>\<open>RenderingConfiguration.__init__\<close>; the attribute \<open>rtl\<close> does not exist yet.\<close>

definition RenderingConfiguration :: "'b rendering_configuration" where
  "RenderingConfiguration =
     \<lparr> title = None, osmid = None, bounding_box = None, language = None,
       stylesheet = None, paper_width_mm = None, paper_height_mm = None, rtl = None \<rparr>"

text \<open>Truth value of \<^verbatim>\<open>config.osmid\<close>: \<^verbatim>\<open>None\<close> and \<^verbatim>\<open>0\<close> are false.\<close>

definition truthy_int :: "int option \<Rightarrow> bool" where
  "truthy_int v = (case v of None \<Rightarrow> False | Some i \<Rightarrow> i \<noteq> 0)"

subsection \<open>Python builtins used on values\<close>

definition digit_char :: "nat \<Rightarrow> char" where
  "digit_char n = ''0123456789'' ! n"

fun str_nat :: "nat \<Rightarrow> string" where
  "str_nat n =
     (if n < 10 then [digit_char n] else str_nat (n div 10) @ [digit_char (n mod 10)])"

declare str_nat.simps [simp del]

definition str_int :: "int \<Rightarrow> string" where
  "str_int i = (if i < 0 then CHR ''-'' # str_nat (nat (- i)) else str_nat (nat i))"

text \<open>\<^verbatim>\<open>int(x)\<close> for \<open>x\<close> an integer or \<^verbatim>\<open>None\<close>.\<close>

definition py_int :: "int option \<Rightarrow> error + int" where
  "py_int v =
     (case v of
        None \<Rightarrow> Inl (TypeError (''int() argument must be a string or a number, not 'NoneType'' @ [CHR 0x27]))
      | Some i \<Rightarrow> Inr i)"

text \<open>\<^verbatim>\<open>map(f, xs)\<close> for an \<open>f\<close> that can raise: the first exception ends it.\<close>

fun map_raising :: "('a \<Rightarrow> error + 'c) \<Rightarrow> 'a list \<Rightarrow> error + 'c list" where
  "map_raising f [] = Inr []"
| "map_raising f (x # xs) = bnd (f x) (\<lambda>y. bnd (map_raising f xs) (\<lambda>ys. Inr (y # ys)))"

definition is_space :: "char \<Rightarrow> bool" where
  "is_space c = (c \<in> set [CHR '' '', CHR 0x09, CHR 0x0A, CHR 0x0B, CHR 0x0C, CHR 0x0D])"

definition strip :: "string \<Rightarrow> string" where
  "strip s = rev (dropWhile is_space (rev (dropWhile is_space s)))"

subsection \<open>The Geographic Resolver\<close>

text \<open>
  One row of \<^verbatim>\<open>cursor.fetchall()\<close> is a list of SQL values. The lambda of
  \<^verbatim>\<open>get_geographic_info\<close> reads \<^verbatim>\<open>x[0]\<close>, \<^verbatim>\<open>x[1].strip()\<close> and \<^verbatim>\<open>x[2].strip()\<close>: a
  missing column is an IndexError, a column that is not a string has no \<^verbatim>\<open>strip\<close>.
\<close>

definition py_strip :: "sqlval \<Rightarrow> error + string" where
  "py_strip v = (case v of SqlText s \<Rightarrow> Inr (strip s) | _ \<Rightarrow> Inl AttributeError)"

definition row_triple :: "sqlval list \<Rightarrow> error + (sqlval \<times> string \<times> string)" where
  "row_triple x =
     (case x of
        [] \<Rightarrow> Inl IndexError
      | x0 # r1 \<Rightarrow>
          (case r1 of
             [] \<Rightarrow> Inl IndexError
           | x1 # r2 \<Rightarrow>
               bnd (py_strip x1) (\<lambda>envelope.
                 (case r2 of
                    [] \<Rightarrow> Inl IndexError
                  | x2 # r3 \<Rightarrow> bnd (py_strip x2) (\<lambda>area. Inr (x0, envelope, area))))))"

definition get_geographic_info ::
  "'b env \<Rightarrow> int option list \<Rightarrow> world \<Rightarrow> (error + (sqlval \<times> string \<times> string) list) \<times> world" where
  "get_geographic_info env osmids w =
     (case map_raising py_int osmids of
        Inl e \<Rightarrow> (Inl e, w)
      | Inr ints \<Rightarrow>
          (let ids = map str_int ints in
           wbind (wlog DEBUG ''Looking up bounding box and contour of OSM IDs %s...'' ids) (\<lambda>_.
           wbind (ext env None Get_db) (\<lambda>_.
           wbind (ext env None Cursor) (\<lambda>_.
           wbind (ext env None (Execute ids)) (\<lambda>_.
           wbind (ext env None Fetchall) (\<lambda>_.
             (case map_raising row_triple (rows env ids) of
                Inr infos \<Rightarrow> wreturn infos
              | Inl e \<Rightarrow>
                  (if e = KeyError \<or> e = IndexError \<or> e = AttributeError
                   then wraise (AssertionError ''Invalid database structure!'')
                   else wraise e))))))) w))"

text \<open>
  The pattern \<^verbatim>\<open>^POLYGON\(\(([^)]*)\)\)$\<close> under \<^verbatim>\<open>re.match\<close>: the literal prefix, the
  longest run of characters other than a closing parenthesis (the group), two closing
  parentheses, and then the end of the string, which \<^verbatim>\<open>$\<close> also finds just before
  a newline that ends the string. The result is the group.
\<close>

definition regexp_polygon_match :: "string \<Rightarrow> string option" where
  "regexp_polygon_match s =
     (if take 9 s = ''POLYGON((''
      then (let rest = drop 9 s;
                inside = takeWhile (\<lambda>c. c \<noteq> CHR '')'') rest;
                after = dropWhile (\<lambda>c. c \<noteq> CHR '')'') rest
            in if after = ''))'' \<or> after = ''))'' @ [CHR 0x0A] then Some inside else None)
      else None)"

definition get_shade_wkt ::
  "'b env \<Rightarrow> 'b \<Rightarrow> string \<Rightarrow> world \<Rightarrow> (error + string option) \<times> world" where
  "get_shade_wkt env bbox polygon w =
     (case regexp_polygon_match polygon of
        None \<Rightarrow>
          wbind (wlog ERROR ''Administrative boundary looks invalid!'' []) (\<lambda>_. wreturn None) w
      | Some inside \<Rightarrow>
          (let expanded = create_expanded env bbox 0.05 0.05
           in wreturn (Some (''MULTIPOLYGON((('' @ as_wkt env expanded False @ '')),(('' @
                             inside @ '')))'')) w))"

subsection \<open>Cleaning up the temporary directory\<close>

text \<open>
  \<^verbatim>\<open>os.walk(tmpdir, topdown=False)\<close> lists a directory, walks each of its
  subdirectories in the order of the listing, and only then yields the directory; the body
  of the loop in \<^verbatim>\<open>_cleanup_tempdir\<close> then removes the files of the directory and calls
  \<^verbatim>\<open>os.rmdir\<close> on its subdirectories, which raises on a directory that is not empty.
  The functions below return the exception, if any, and the entries that are left.
\<close>

definition remove_files :: "(string \<times> fsnode) list \<Rightarrow> (string \<times> fsnode) list" where
  "remove_files es = filter (\<lambda>(n, c). c \<noteq> File) es"

fun rmdirs :: "(string \<times> fsnode) list \<Rightarrow> error option \<times> (string \<times> fsnode) list" where
  "rmdirs [] = (None, [])"
| "rmdirs ((n, File) # es) = (case rmdirs es of (e, r) \<Rightarrow> (e, (n, File) # r))"
| "rmdirs ((n, Dir []) # es) = rmdirs es"
| "rmdirs ((n, Dir (x # xs)) # es) =
     (Some (OSError ''Directory not empty''), (n, Dir (x # xs)) # es)"

fun walk_cleanup :: "(string \<times> fsnode) list \<Rightarrow> error option \<times> (string \<times> fsnode) list"
and walk_subdirs :: "(string \<times> fsnode) list \<Rightarrow> error option \<times> (string \<times> fsnode) list" where
  "walk_cleanup es =
     (case walk_subdirs es of
        (Some e, es1) \<Rightarrow> (Some e, es1)
      | (None, es1) \<Rightarrow> rmdirs (remove_files es1))"
| "walk_subdirs [] = (None, [])"
| "walk_subdirs ((n, File) # es) = (case walk_subdirs es of (e, r) \<Rightarrow> (e, (n, File) # r))"
| "walk_subdirs ((n, Dir d) # es) =
     (case walk_cleanup d of
        (Some e, d') \<Rightarrow> (Some e, (n, Dir d') # es)
      | (None, d') \<Rightarrow> (case walk_subdirs es of (e, r) \<Rightarrow> (e, (n, Dir d') # r)))"

declare walk_cleanup.simps [simp del]

definition cleanup_tempdir :: "string \<Rightarrow> world \<Rightarrow> (error + unit) \<times> world" where
  "cleanup_tempdir tmpdir w =
     wbind (wlog DEBUG ''Cleaning up %s...'' [tmpdir]) (\<lambda>_ w1.
       (case tmp w1 tmpdir of
          None \<Rightarrow> (Inl (OSError ''No such file or directory''), w1)
        | Some es \<Rightarrow>
            (case walk_cleanup es of
               (Some e, es') \<Rightarrow> (Inl e, w1\<lparr>tmp := (tmp w1)(tmpdir \<mapsto> es')\<rparr>)
             | (None, es') \<Rightarrow>
                 (if es' = [] then (Inr (), w1\<lparr>tmp := (tmp w1)(tmpdir := None)\<rparr>)
                  else (Inl (OSError ''Directory not empty''),
                        w1\<lparr>tmp := (tmp w1)(tmpdir \<mapsto> es')\<rparr>))))) w"

subsection \<open>Rendering one output format\<close>

text \<open>
  The resolution of the raster output: \<^verbatim>\<open>int(self._parser.get('rendering', 'png_dpi'))\<close>,
  with \<^verbatim>\<open>DEFAULT_RENDERING_PNG_DPI\<close> when the option is missing.
\<close>

definition png_dpi :: "'b env \<Rightarrow> error + int" where
  "png_dpi env =
     (case bnd (p_get (parser env) ''rendering'' ''png_dpi'') (int_of_str (cast env)) of
        Inl e \<Rightarrow> (if e = NoOptionError then Inr 300 else Inl e)
      | Inr d \<Rightarrow> Inr d)"

text \<open>
  The part of \<^verbatim>\<open>_render_one\<close> after the choice of the factory: the surface is made, the
  renderer (which holds the workspace \<open>rd\<close>) draws into a rendering session, a raster
  surface is written to the file, and the surface is finished.
\<close>

definition render_on_surface ::
  "'b env \<Rightarrow> string \<Rightarrow> (world \<Rightarrow> (error + unit) \<times> world) \<Rightarrow> real \<Rightarrow> string \<Rightarrow> bool \<Rightarrow>
   world \<Rightarrow> (error + unit) \<times> world" where
  "render_on_surface env rd factory dpi filename is_png =
     wbind factory (\<lambda>_.
     wbind (ext env (Some rd) (Create_rendering_session dpi)) (\<lambda>_.
     wbind (ext env (Some rd) Renderer_render) (\<lambda>_.
     wbind (wlog DEBUG ''Writing %s...'' [filename]) (\<lambda>_.
     wbind (if is_png then ext_file env (Write_to_png filename) filename else wreturn ()) (\<lambda>_.
     ext env None Surface_finish)))))"

definition render_one ::
  "'b env \<Rightarrow> string \<Rightarrow> string \<Rightarrow> string \<Rightarrow> world \<Rightarrow> (error + unit) \<times> world" where
  "render_one env rd filename output_format =
     wbind (wlog INFO ''Rendering to %s format...'' [upper output_format]) (\<lambda>_.
       if output_format = ''png'' then
         (case png_dpi env of
            Inl e \<Rightarrow> wraise e
          | Inr dpi \<Rightarrow>
              render_on_surface env rd (ext env None (ImageSurface dpi)) (real_of_int dpi)
                filename True)
       else if output_format = ''svg'' then
         render_on_surface env rd (ext_file env (SVGSurface filename) filename)
           (PT_PER_INCH env) filename False
       else if output_format = ''svgz'' then
         render_on_surface env rd
           (wbind (ext_file env (GzipFile filename) filename) (\<lambda>_. ext env None SVGSurface_on_stream))
           (PT_PER_INCH env) filename False
       else if output_format = ''pdf'' then
         render_on_surface env rd (ext_file env (PDFSurface filename) filename)
           (PT_PER_INCH env) filename False
       else if output_format = ''ps'' then
         render_on_surface env rd (ext_file env (PSSurface filename) filename)
           (PT_PER_INCH env) filename False
       else if output_format = ''csv'' then wreturn ()
       else wraise (ValueError (''Unsupported output format: '' @ upper output_format @ ''!'')))"

subsection \<open>The render call\<close>

definition str_bool :: "bool \<Rightarrow> string" where
  "str_bool b = (if b then ''True'' else ''False'')"

text \<open>
  \<^verbatim>\<open>render\<close>, from the assertion to "Make sure we have a bounding box": the result is the
  row of the area, the configuration object as it is left, and the world.
\<close>

definition render_resolve ::
  "'b env \<Rightarrow> 'b rendering_configuration \<Rightarrow> string \<Rightarrow> world \<Rightarrow>
   (error + (sqlval \<times> string \<times> string)) \<times> 'b rendering_configuration \<times> world" where
  "render_resolve env config renderer_name w =
     (if \<not> (truthy_int (osmid config) \<or> bounding_box config \<noteq> None)
      then (Inl (AssertionError ''At least an OSM ID or a bounding box must be provided!''),
            config, w)
      else
        (case ext env None (Install_translation (language config)) w of
           (Inl e, w1) \<Rightarrow> (Inl e, config, w1)
         | (Inr _, w1) \<Rightarrow>
             (let config1 = config\<lparr>rtl := Some (isrtl env)\<rparr>;
                  w2 = snd (wlog INFO ''Rendering with renderer %s in language: %s (rtl: %s).''
                              [renderer_name, language_code env, str_bool (isrtl env)] w1)
              in (case get_geographic_info env [osmid config1] w2 of
                    (Inl e, w3) \<Rightarrow>
                      (Inl (if e = IndexError
                            then AssertionError ''OSM ID not found in the database!'' else e),
                       config1, w3)
                  | (Inr [], w3) \<Rightarrow>
                      (Inl (AssertionError ''OSM ID not found in the database!''), config1, w3)
                  | (Inr (osmid_geo_info # _), w3) \<Rightarrow>
                      (case bounding_box config1 of
                         Some b \<Rightarrow> (Inr osmid_geo_info, config1, w3)
                       | None \<Rightarrow>
                           (case ext env None (Parse_wkt (fst (snd osmid_geo_info))) w3 of
                              (Inl e, w4) \<Rightarrow> (Inl e, config1, w4)
                            | (Inr _, w4) \<Rightarrow>
                                (Inr osmid_geo_info,
                                 config1\<lparr>bounding_box :=
                                   Some (parse_wkt env (fst (snd osmid_geo_info)))\<rparr>,
                                 w4)))))))"

text \<open>The shading step; the result is the value of the variable \<^verbatim>\<open>polygon\<close>.\<close>

definition render_shade_step ::
  "'b env \<Rightarrow> 'b rendering_configuration \<Rightarrow> (sqlval \<times> string \<times> string) \<Rightarrow> string \<Rightarrow>
   world \<Rightarrow> (error + string option) \<times> world" where
  "render_shade_step env config osmid_geo_info tmpdir =
     (if truthy_int (osmid config) then
        (let polygon = snd (snd osmid_geo_info) in
         if polygon \<noteq> [] then
           wbind (ext env (Some tmpdir) Get_actual_bounding_box) (\<lambda>_.
           wbind (get_shade_wkt env (actual_bounding_box env) polygon) (\<lambda>shade_wkt.
           wbind (ext env (Some tmpdir) (Render_shade shade_wkt)) (\<lambda>_.
           wreturn (Some polygon))))
         else wreturn (Some polygon))
      else wreturn None)"

text \<open>The loop over the output formats.\<close>

fun render_outputs ::
  "'b env \<Rightarrow> string \<Rightarrow> string \<Rightarrow> string list \<Rightarrow> world \<Rightarrow> (error + unit) \<times> world" where
  "render_outputs env rd file_prefix [] w = (Inr (), w)"
| "render_outputs env rd file_prefix (output_format # rest) w =
     (case render_one env rd (file_prefix @ ''.'' @ output_format) output_format w of
        (Inl e, w') \<Rightarrow> (Inl e, w')
      | (Inr _, w') \<Rightarrow> render_outputs env rd file_prefix rest w')"

text \<open>
  \<^verbatim>\<open>try: ... finally: ...\<close>: the final block runs whatever the body did; an exception
  of the final block replaces the one of the body.
\<close>

definition try_finally ::
  "(world \<Rightarrow> (error + 'a) \<times> world) \<Rightarrow> (world \<Rightarrow> (error + unit) \<times> world) \<Rightarrow>
   world \<Rightarrow> (error + 'a) \<times> world" where
  "try_finally body final w =
     (case body w of
        (r, w1) \<Rightarrow> (case final w1 of (Inl e, w2) \<Rightarrow> (Inl e, w2) | (Inr _, w2) \<Rightarrow> (r, w2)))"

text \<open>
  \<^verbatim>\<open>tempfile.mkdtemp\<close> makes a directory that did not exist; the name it tries is the
  environment's, and it raises when that name is taken.
\<close>

definition mkdtemp :: "'b env \<Rightarrow> world \<Rightarrow> (error + string) \<times> world" where
  "mkdtemp env =
     wbind (ext env None Mkdtemp) (\<lambda>_ w.
       (case tmp w (mkdtemp_name env) of
          Some es \<Rightarrow> (Inl (OSError ''No usable temporary directory name found''), w)
        | None \<Rightarrow> (Inr (mkdtemp_name env), w\<lparr>tmp := (tmp w)(mkdtemp_name env \<mapsto> [])\<rparr>)))"

text \<open>
  \<^verbatim>\<open>render\<close>, from the creation of the temporary directory to the street index renderer:
  the part that is not under the \<^verbatim>\<open>try\<close>. The result is the temporary directory.
\<close>

definition render_prepare ::
  "'b env \<Rightarrow> 'b rendering_configuration \<Rightarrow> (sqlval \<times> string \<times> string) \<Rightarrow> string \<Rightarrow>
   world \<Rightarrow> (error + string) \<times> world" where
  "render_prepare env config osmid_geo_info renderer_name =
     wbind (mkdtemp env) (\<lambda>tmpdir.
     wbind (wlog DEBUG ''Rendering in temporary directory %s'' [tmpdir]) (\<lambda>_.
     wbind (ext env None (Get_renderer_class_by_name renderer_name)) (\<lambda>_.
     wbind (ext env (Some tmpdir) (Renderer_init tmpdir)) (\<lambda>_.
     wbind (ext env (Some tmpdir) Create_map_canvas) (\<lambda>_.
     wbind (render_shade_step env config osmid_geo_info tmpdir) (\<lambda>polygon.
     wbind (ext env (Some tmpdir) Canvas_render) (\<lambda>_.
     wbind (ext env None Get_db) (\<lambda>_.
     wbind (ext env (Some tmpdir) Get_actual_bounding_box) (\<lambda>_.
     wbind (ext env None (StreetIndex polygon)) (\<lambda>_.
     wbind (ext env None StreetIndexRenderer) (\<lambda>_.
     wreturn tmpdir)))))))))))"

text \<open>\<^verbatim>\<open>render\<close>, from the creation of the temporary directory to the end.\<close>

definition render_pipeline ::
  "'b env \<Rightarrow> 'b rendering_configuration \<Rightarrow> (sqlval \<times> string \<times> string) \<Rightarrow> string \<Rightarrow>
   string list \<Rightarrow> string \<Rightarrow> world \<Rightarrow> (error + unit) \<times> world" where
  "render_pipeline env config osmid_geo_info renderer_name output_formats file_prefix =
     wbind (render_prepare env config osmid_geo_info renderer_name) (\<lambda>tmpdir.
     try_finally (render_outputs env tmpdir file_prefix output_formats)
       (cleanup_tempdir tmpdir))"

definition render ::
  "'b env \<Rightarrow> 'b rendering_configuration \<Rightarrow> string \<Rightarrow> string list \<Rightarrow> string \<Rightarrow> world \<Rightarrow>
   (error + unit) \<times> 'b rendering_configuration \<times> world" where
  "render env config renderer_name output_formats file_prefix w =
     (let formats = map lower output_formats in
      case render_resolve env config renderer_name w of
        (Inl e, config', w') \<Rightarrow> (Inl e, config', w')
      | (Inr osmid_geo_info, config', w') \<Rightarrow>
          (case render_pipeline env config' osmid_geo_info renderer_name formats file_prefix w' of
             (r, w'') \<Rightarrow> (r, config', w'')))"

subsection \<open>The exact single-ring form, as the specification words it\<close>

text \<open>
  A string has the form \<^verbatim>\<open>POLYGON((ring))\<close> when it starts with \<^verbatim>\<open>POLYGON((\<close>, ends with
  two closing parentheses, and the ring text between them has no closing parenthesis.
\<close>

definition single_ring_form :: "string \<Rightarrow> bool" where
  "single_ring_form s =
     (11 \<le> length s \<and> take 9 s = ''POLYGON(('' \<and> drop (length s - 2) s = ''))'' \<and>
      CHR '')'' \<notin> set (take (length s - 11) (drop 9 s)))"

subsection \<open>Example inputs\<close>

datatype ex_bbox = Box string | Expanded ex_bbox real real

primrec ex_ring :: "ex_bbox \<Rightarrow> string" where
  "ex_ring (Box s) = s"
| "ex_ring (Expanded b dx dy) = ''expanded '' @ ex_ring b"

definition ex_env :: "(call \<Rightarrow> error option) \<Rightarrow> sqlval list list \<Rightarrow> ex_bbox env" where
  "ex_env failing rs =
     \<lparr> raises = (\<lambda>h c. failing c),
       writes = (\<lambda>h c es. if c = Create_map_canvas
                           then es @ [(''shapes'', Dir [(''grid.shp'', File)]), (''map.xml'', File)]
                           else es),
       isrtl = False,
       language_code = ''fr'',
       rows = (\<lambda>ids. rs),
       parse_wkt = Box,
       create_expanded = Expanded,
       as_wkt = (\<lambda>b with_polygon_statement.
                   if with_polygon_statement then ''POLYGON(('' @ ex_ring b @ ''))'' else ex_ring b),
       mkdtemp_name = ''/tmp/ocitysmapXa3f9Q'',
       actual_bounding_box = Box ''0 0,0 2,2 2,2 0,0 0'',
       PT_PER_INCH = 72,
       parser = \<lparr> p_get = (\<lambda>s k. Inl NoOptionError), p_has_option = (\<lambda>s k. False) \<rparr>,
       cast = \<lparr> int_of_str = (\<lambda>s. Inl (ValueError ''invalid literal for int()'')),
                float_of_str = (\<lambda>s. Inl (ValueError ''invalid literal for float()'')) \<rparr> \<rparr>"

definition ex_world :: world where
  "ex_world = \<lparr> tmp = (\<lambda>d. None), files = [], logged = [], calls = [] \<rparr>"

definition ex_parser :: config_parser where
  "ex_parser =
     \<lparr> p_get = (\<lambda>s k.
         if s = ''plain'' \<and> k = ''name'' then Inr ''Default''
         else if s = ''plain'' \<and> k = ''path'' then Inr ''/srv/osm.xml''
         else if s = ''dense'' \<and> k = ''name'' then Inr ''Dense''
         else if s = ''dense'' \<and> k = ''path'' then Inr ''/srv/dense.xml''
         else if s = ''dense'' \<and> k = ''zoom_level'' then Inr ''17''
         else Inl NoOptionError),
       p_has_option = (\<lambda>s k.
         (s = ''plain'' \<and> (k = ''name'' \<or> k = ''path'')) \<or>
         (s = ''dense'' \<and> (k = ''name'' \<or> k = ''path'' \<or> k = ''zoom_level''))) \<rparr>"

definition ex_casts :: casts where
  "ex_casts =
     \<lparr> int_of_str = (\<lambda>s. if s = ''17'' then Inr 17
                          else Inl (ValueError ''invalid literal for int()'')),
       float_of_str = (\<lambda>s. Inl (ValueError ''invalid literal for float()'')) \<rparr>"

definition ex_registry :: "stylesheet list" where
  "ex_registry =
     [Stylesheet\<lparr>name := Some ''Plain'', path := Some ''/srv/plain.xml''\<rparr>,
      Stylesheet\<lparr>name := Some ''Default'', path := Some ''/srv/first.xml''\<rparr>,
      Stylesheet\<lparr>name := Some ''Default'', path := Some ''/srv/second.xml''\<rparr>]"

definition ex_config :: "ex_bbox rendering_configuration" where
  "ex_config =
     RenderingConfiguration\<lparr> title := Some ''Chevreuse, Yvelines'', language := Some ''fr_FR.UTF-8'',
       paper_width_mm := Some 297, paper_height_mm := Some 420 \<rparr>"

definition ex_rows :: "sqlval list list" where
  "ex_rows =
     [[SqlInt (- 7444), SqlText ''POLYGON((1 1,1 3,3 3,3 1,1 1))'',
       SqlText '' POLYGON((1 1,1 2,2 2,1 1)) '']]"

definition ex_rows_null :: "sqlval list list" where
  "ex_rows_null = [[SqlInt (- 7444), SqlText ''POLYGON((1 1,1 3,3 3,3 1,1 1))'', SqlNull]]"

subsection \<open>What every step of the pipeline keeps\<close>



section \<open>Properties\<close>

subsection \<open>Sequencing of raising computations\<close>

lemma bnd_eq_Inr: "bnd m f = Inr y \<longleftrightarrow> (\<exists>x. m = Inr x \<and> f x = Inr y)"
  by (cases m) (auto simp: bnd_def)

lemma bnd_Inr_right: "bnd m Inr = m"
  by (cases m) (auto simp: bnd_def)

subsection \<open>The stylesheet registry\<close>

lemma get_stylesheet_by_name_miss:
  "\<forall>style \<in> set registry. name style \<noteq> Some nm \<Longrightarrow>
   get_stylesheet_by_name registry nm =
     Inl (LookupError (''The requested stylesheet '' @ nm @ '' was not found!''))"
  by (induction registry) auto

lemma get_stylesheet_by_name_hit:
  "i < length registry \<Longrightarrow> name (registry ! i) = Some nm \<Longrightarrow>
   \<forall>j < i. name (registry ! j) \<noteq> Some nm \<Longrightarrow>
   get_stylesheet_by_name registry nm = Inr (registry ! i)"
proof (induction registry arbitrary: i)
  case Nil
  then show ?case by simp
next
  case (Cons style rest)
  show ?case
  proof (cases i)
    case 0
    with Cons.prems show ?thesis by simp
  next
    case (Suc k)
    from Cons.prems(3) Suc have first: "name style \<noteq> Some nm" by auto
    have "k < length rest" using Cons.prems(1) Suc by simp
    moreover have "name (rest ! k) = Some nm" using Cons.prems(2) Suc by simp
    moreover have "\<forall>j < k. name (rest ! j) \<noteq> Some nm"
    proof (intro allI impI)
      fix j assume "j < k"
      then have "Suc j < i" using Suc by simp
      with Cons.prems(3) have "name ((style # rest) ! Suc j) \<noteq> Some nm" by blast
      then show "name (rest ! j) \<noteq> Some nm" by simp
    qed
    ultimately have "get_stylesheet_by_name rest nm = Inr (rest ! k)"
      by (rule Cons.IH)
    with first Suc show ?thesis by simp
  qed
qed

text \<open>
  Claim C9. Lookup by name returns the first stylesheet of the registry that has the name:
  the entry at index \<open>i\<close> when it has the name and no entry before it has. When no entry
  has the name, the lookup raises the LookupError of the module.
\<close>

theorem get_stylesheet_by_name_first_match:
  "(\<forall>i < length registry.
      name (registry ! i) = Some nm \<and> (\<forall>j < i. name (registry ! j) \<noteq> Some nm) \<longrightarrow>
      get_stylesheet_by_name registry nm = Inr (registry ! i)) \<and>
   ((\<forall>style \<in> set registry. name style \<noteq> Some nm) \<longrightarrow>
      get_stylesheet_by_name registry nm =
        Inl (LookupError (''The requested stylesheet '' @ nm @ '' was not found!'')))"
  using get_stylesheet_by_name_hit get_stylesheet_by_name_miss by blast

theorem get_stylesheet_by_name_first_match_witness:
  "get_stylesheet_by_name ex_registry ''Default'' =
     Inr (Stylesheet\<lparr>name := Some ''Default'', path := Some ''/srv/first.xml''\<rparr>) \<and>
   get_stylesheet_by_name ex_registry ''Dense'' =
     Inl (LookupError ''The requested stylesheet Dense was not found!'')"
proof -
  have len: "(1::nat) < length ex_registry" by (simp add: ex_registry_def)
  have hit: "name (ex_registry ! 1) = Some ''Default'' \<and>
             (\<forall>j < 1. name (ex_registry ! j) \<noteq> Some ''Default'')"
    by (simp add: ex_registry_def Stylesheet_def)
  have miss: "\<forall>style \<in> set ex_registry. name style \<noteq> Some ''Dense''"
    by (simp add: ex_registry_def Stylesheet_def)
  from get_stylesheet_by_name_first_match [of ex_registry "''Default''"] len hit
  have a: "get_stylesheet_by_name ex_registry ''Default'' = Inr (ex_registry ! 1)" by blast
  from get_stylesheet_by_name_first_match [of ex_registry "''Dense''"] miss
  have b: "get_stylesheet_by_name ex_registry ''Dense'' =
           Inl (LookupError (''The requested stylesheet '' @ ''Dense'' @ '' was not found!''))"
    by blast
  from a b show ?thesis by (simp add: ex_registry_def)
qed


lemma stylesheet_eq_fields:
  "(s :: stylesheet) = \<lparr> name = a, path = b, description = c, zoom_level = d,
       grid_line_color = e, grid_line_alpha = f, grid_line_width = g,
       shade_color = h, shade_alpha = i \<rparr> \<longleftrightarrow>
   name s = a \<and> path s = b \<and> description s = c \<and> zoom_level s = d \<and>
   grid_line_color s = e \<and> grid_line_alpha s = f \<and> grid_line_width s = g \<and>
   shade_color s = h \<and> shade_alpha s = i"
  by (cases s) auto

lemma create_from_config_section_Inr:
  assumes "p_get prs sec ''name'' = Inr n" and "p_get prs sec ''path'' = Inr p"
  shows "create_from_config_section cs prs sec = Inr s \<longleftrightarrow>
     name s = Some n \<and> path s = Some p \<and>
     assign_if_present prs sec ''description'' Inr '''' = Inr (description s) \<and>
     assign_if_present prs sec ''zoom_level'' (int_of_str cs) 16 = Inr (zoom_level s) \<and>
     assign_if_present prs sec ''grid_line_color'' Inr ''black'' = Inr (grid_line_color s) \<and>
     assign_if_present prs sec ''grid_line_alpha'' (float_of_str cs) 0.5 = Inr (grid_line_alpha s) \<and>
     assign_if_present prs sec ''grid_line_width'' (int_of_str cs) 3 = Inr (grid_line_width s) \<and>
     assign_if_present prs sec ''shade_color'' Inr ''black'' = Inr (shade_color s) \<and>
     assign_if_present prs sec ''shade_alpha'' (float_of_str cs) 0.1 = Inr (shade_alpha s)"
  unfolding create_from_config_section_def Let_def
  by (simp add: assms bnd_eq_Inr Stylesheet_def)
    (auto simp: stylesheet_eq_fields)


text \<open>
  Claim C10. In a section whose \<open>name\<close> and \<open>path\<close> can be read, a stylesheet made without
  any of the seven optional options has the defaults of \<^verbatim>\<open>Stylesheet.__init__\<close>: description
  empty, zoom level 16, grid line black, 0.5 and 3, shade black and 0.1. In general the
  creation returns \<open>s\<close> exactly when each optional field of \<open>s\<close> is the cast value of its
  own option if the section has it, and the default if not: an option changes its own
  field and no other.
\<close>

theorem create_from_config_section_defaults_and_overrides:
  assumes "p_get prs sec ''name'' = Inr n" and "p_get prs sec ''path'' = Inr p"
  shows
    "((\<forall>key \<in> set [''description'', ''zoom_level'', ''grid_line_color'', ''grid_line_alpha'',
                     ''grid_line_width'', ''shade_color'', ''shade_alpha''].
         \<not> p_has_option prs sec key) \<longrightarrow>
      create_from_config_section cs prs sec =
        Inr \<lparr> name = Some n, path = Some p, description = '''', zoom_level = 16,
              grid_line_color = ''black'', grid_line_alpha = 0.5, grid_line_width = 3,
              shade_color = ''black'', shade_alpha = 0.1 \<rparr>) \<and>
     (create_from_config_section cs prs sec = Inr s \<longleftrightarrow>
        name s = Some n \<and> path s = Some p \<and>
        Inr (description s) =
          (if p_has_option prs sec ''description''
           then p_get prs sec ''description'' else Inr '''') \<and>
        Inr (zoom_level s) =
          (if p_has_option prs sec ''zoom_level''
           then bnd (p_get prs sec ''zoom_level'') (int_of_str cs) else Inr 16) \<and>
        Inr (grid_line_color s) =
          (if p_has_option prs sec ''grid_line_color''
           then p_get prs sec ''grid_line_color'' else Inr ''black'') \<and>
        Inr (grid_line_alpha s) =
          (if p_has_option prs sec ''grid_line_alpha''
           then bnd (p_get prs sec ''grid_line_alpha'') (float_of_str cs) else Inr 0.5) \<and>
        Inr (grid_line_width s) =
          (if p_has_option prs sec ''grid_line_width''
           then bnd (p_get prs sec ''grid_line_width'') (int_of_str cs) else Inr 3) \<and>
        Inr (shade_color s) =
          (if p_has_option prs sec ''shade_color''
           then p_get prs sec ''shade_color'' else Inr ''black'') \<and>
        Inr (shade_alpha s) =
          (if p_has_option prs sec ''shade_alpha''
           then bnd (p_get prs sec ''shade_alpha'') (float_of_str cs) else Inr 0.1))"
proof
  show "(\<forall>key \<in> set [''description'', ''zoom_level'', ''grid_line_color'', ''grid_line_alpha'',
                     ''grid_line_width'', ''shade_color'', ''shade_alpha''].
         \<not> p_has_option prs sec key) \<longrightarrow>
      create_from_config_section cs prs sec =
        Inr \<lparr> name = Some n, path = Some p, description = '''', zoom_level = 16,
              grid_line_color = ''black'', grid_line_alpha = 0.5, grid_line_width = 3,
              shade_color = ''black'', shade_alpha = 0.1 \<rparr>"
    by (simp add: create_from_config_section_Inr [OF assms] assign_if_present_def)
next
  show "create_from_config_section cs prs sec = Inr s \<longleftrightarrow>
        name s = Some n \<and> path s = Some p \<and>
        Inr (description s) =
          (if p_has_option prs sec ''description''
           then p_get prs sec ''description'' else Inr '''') \<and>
        Inr (zoom_level s) =
          (if p_has_option prs sec ''zoom_level''
           then bnd (p_get prs sec ''zoom_level'') (int_of_str cs) else Inr 16) \<and>
        Inr (grid_line_color s) =
          (if p_has_option prs sec ''grid_line_color''
           then p_get prs sec ''grid_line_color'' else Inr ''black'') \<and>
        Inr (grid_line_alpha s) =
          (if p_has_option prs sec ''grid_line_alpha''
           then bnd (p_get prs sec ''grid_line_alpha'') (float_of_str cs) else Inr 0.5) \<and>
        Inr (grid_line_width s) =
          (if p_has_option prs sec ''grid_line_width''
           then bnd (p_get prs sec ''grid_line_width'') (int_of_str cs) else Inr 3) \<and>
        Inr (shade_color s) =
          (if p_has_option prs sec ''shade_color''
           then p_get prs sec ''shade_color'' else Inr ''black'') \<and>
        Inr (shade_alpha s) =
          (if p_has_option prs sec ''shade_alpha''
           then bnd (p_get prs sec ''shade_alpha'') (float_of_str cs) else Inr 0.1)"
    unfolding create_from_config_section_Inr [OF assms] assign_if_present_def bnd_Inr_right
    by (simp only: eq_commute [of "Inr _"])
qed

theorem create_from_config_section_defaults_and_overrides_witness:
  "create_from_config_section ex_casts ex_parser ''plain'' =
     Inr \<lparr> name = Some ''Default'', path = Some ''/srv/osm.xml'', description = '''',
           zoom_level = 16, grid_line_color = ''black'', grid_line_alpha = 0.5,
           grid_line_width = 3, shade_color = ''black'', shade_alpha = 0.1 \<rparr> \<and>
   create_from_config_section ex_casts ex_parser ''dense'' =
     Inr \<lparr> name = Some ''Dense'', path = Some ''/srv/dense.xml'', description = '''',
           zoom_level = 17, grid_line_color = ''black'', grid_line_alpha = 0.5,
           grid_line_width = 3, shade_color = ''black'', shade_alpha = 0.1 \<rparr>"
proof -
  have n1: "p_get ex_parser ''plain'' ''name'' = Inr ''Default''"
    and p1: "p_get ex_parser ''plain'' ''path'' = Inr ''/srv/osm.xml''"
    and n2: "p_get ex_parser ''dense'' ''name'' = Inr ''Dense''"
    and p2: "p_get ex_parser ''dense'' ''path'' = Inr ''/srv/dense.xml''"
    by (simp_all add: ex_parser_def)
  have absent: "\<forall>key \<in> set [''description'', ''zoom_level'', ''grid_line_color'',
        ''grid_line_alpha'', ''grid_line_width'', ''shade_color'', ''shade_alpha''].
      \<not> p_has_option ex_parser ''plain'' key"
    by (simp add: ex_parser_def)
  from create_from_config_section_defaults_and_overrides [OF n1 p1, of ex_casts] absent
  have a: "create_from_config_section ex_casts ex_parser ''plain'' =
     Inr \<lparr> name = Some ''Default'', path = Some ''/srv/osm.xml'', description = '''',
           zoom_level = 16, grid_line_color = ''black'', grid_line_alpha = 0.5,
           grid_line_width = 3, shade_color = ''black'', shade_alpha = 0.1 \<rparr>"
    by blast
  from create_from_config_section_defaults_and_overrides [OF n2 p2, of ex_casts
      "\<lparr> name = Some ''Dense'', path = Some ''/srv/dense.xml'', description = '''',
           zoom_level = 17, grid_line_color = ''black'', grid_line_alpha = 0.5,
           grid_line_width = 3, shade_color = ''black'', shade_alpha = 0.1 \<rparr>"]
  have b: "create_from_config_section ex_casts ex_parser ''dense'' =
     Inr \<lparr> name = Some ''Dense'', path = Some ''/srv/dense.xml'', description = '''',
           zoom_level = 17, grid_line_color = ''black'', grid_line_alpha = 0.5,
           grid_line_width = 3, shade_color = ''black'', shade_alpha = 0.1 \<rparr>"
    by (simp add: ex_parser_def ex_casts_def bnd_def)
  from a b show ?thesis by simp
qed

subsection \<open>The shade polygon\<close>

lemma regexp_polygon_match_ring:
  assumes "CHR '')'' \<notin> set ring"
  shows "regexp_polygon_match (''POLYGON(('' @ ring @ ''))'' @ rest) =
         (if rest = [] \<or> rest = [CHR 0x0A] then Some ring else None)"
proof -
  have tw: "takeWhile (\<lambda>c. c \<noteq> CHR '')'') (ring @ CHR '')'' # CHR '')'' # rest) = ring"
    using assms by (subst takeWhile_append2) auto
  have dw: "dropWhile (\<lambda>c. c \<noteq> CHR '')'') (ring @ CHR '')'' # CHR '')'' # rest) =
            CHR '')'' # CHR '')'' # rest"
    using assms by (subst dropWhile_append2) auto
  show ?thesis
    unfolding regexp_polygon_match_def by (simp add: tw dw Let_def)
qed

lemma regexp_polygon_match_SomeD:
  assumes "regexp_polygon_match s = Some inside"
  shows "CHR '')'' \<notin> set inside \<and>
         (s = ''POLYGON(('' @ inside @ ''))'' \<or> s = ''POLYGON(('' @ inside @ ''))'' @ [CHR 0x0A])"
proof -
  let ?p = "\<lambda>c. c \<noteq> CHR '')''"
  from assms have pre: "take 9 s = ''POLYGON((''"
    by (auto simp: regexp_polygon_match_def split: if_splits)
  from assms pre have ins: "inside = takeWhile ?p (drop 9 s)"
    by (auto simp: regexp_polygon_match_def Let_def split: if_splits)
  from assms pre have aft: "dropWhile ?p (drop 9 s) = ''))'' \<or>
      dropWhile ?p (drop 9 s) = ''))'' @ [CHR 0x0A]"
    by (auto simp: regexp_polygon_match_def Let_def split: if_splits)
  have "s = take 9 s @ drop 9 s" by simp
  also have "drop 9 s = takeWhile ?p (drop 9 s) @ dropWhile ?p (drop 9 s)" by simp
  finally have s: "s = ''POLYGON(('' @ inside @ dropWhile ?p (drop 9 s)" using pre ins by simp
  have "CHR '')'' \<notin> set inside" unfolding ins by (auto dest: set_takeWhileD)
  with s aft show ?thesis by auto
qed

lemma single_ring_form_iff:
  "single_ring_form s \<longleftrightarrow> (\<exists>ring. s = ''POLYGON(('' @ ring @ ''))'' \<and> CHR '')'' \<notin> set ring)"
proof
  assume a: "single_ring_form s"
  let ?ring = "take (length s - 11) (drop 9 s)"
  from a have len: "11 \<le> length s" and pre: "take 9 s = ''POLYGON((''"
    and suf: "drop (length s - 2) s = ''))''" and nin: "CHR '')'' \<notin> set ?ring"
    by (auto simp: single_ring_form_def)
  have "s = take 9 s @ drop 9 s" by simp
  also have "drop 9 s = ?ring @ drop (length s - 11) (drop 9 s)"
    by (rule append_take_drop_id [symmetric])
  also have "drop (length s - 11) (drop 9 s) = drop (length s - 2) s"
  proof -
    have "length s - 11 + 9 = length s - 2" using len by arith
    then show ?thesis by (simp only: drop_drop)
  qed
  finally have "s = ''POLYGON(('' @ ?ring @ ''))''" using pre suf by simp
  with nin show "\<exists>ring. s = ''POLYGON(('' @ ring @ ''))'' \<and> CHR '')'' \<notin> set ring" by blast
next
  assume "\<exists>ring. s = ''POLYGON(('' @ ring @ ''))'' \<and> CHR '')'' \<notin> set ring"
  then obtain ring where s: "s = ''POLYGON(('' @ ring @ ''))''" and nin: "CHR '')'' \<notin> set ring"
    by blast
  show "single_ring_form s" unfolding s single_ring_form_def using nin by simp
qed

text \<open>
  Claim C5. For every bounding box and every polygon string \<^verbatim>\<open>POLYGON((ring))\<close> whose ring
  text has no closing parenthesis, \<open>get_shade_wkt\<close> returns the multipolygon made of the
  box expanded by 0.05 on both axes (serialised without the polygon statement)
  and of the ring text as it is; nothing is logged.
\<close>

theorem get_shade_wkt_single_ring:
  "CHR '')'' \<notin> set ring \<Longrightarrow>
   get_shade_wkt env bbox (''POLYGON(('' @ ring @ ''))'') w =
     (Inr (Some (''MULTIPOLYGON((('' @ as_wkt env (create_expanded env bbox (5 / 100) (5 / 100)) False @
                 '')),(('' @ ring @ '')))'')), w)"
  using regexp_polygon_match_ring [of ring "[]"]
  by (simp add: get_shade_wkt_def wreturn_def)

theorem get_shade_wkt_single_ring_witness:
  "CHR '')'' \<notin> set ''0 0,0 1,1 1,0 0'' \<and>
   get_shade_wkt (ex_env (\<lambda>c. None) []) (Box ''0 0,0 2,2 2,2 0,0 0'')
       ''POLYGON((0 0,0 1,1 1,0 0))'' ex_world =
     (Inr (Some ''MULTIPOLYGON(((expanded 0 0,0 2,2 2,2 0,0 0)),((0 0,0 1,1 1,0 0)))''), ex_world)"
proof -
  have h: "CHR '')'' \<notin> set ''0 0,0 1,1 1,0 0''" by simp
  from get_shade_wkt_single_ring [OF h, of "ex_env (\<lambda>c. None) []" "Box ''0 0,0 2,2 2,2 0,0 0''" ex_world]
  show ?thesis by (simp add: ex_env_def)
qed

text \<open>
  Claim C8, as stated, fails: a string that is the single-ring form followed by one
  newline is not of the exact form, yet \<^verbatim>\<open>$\<close> accepts it and a shade is returned.
\<close>

theorem get_shade_wkt_trailing_newline_counterexample:
  "\<not> single_ring_form (''POLYGON((0 0,0 1,1 1,0 0))'' @ [CHR 0x0A]) \<and>
   get_shade_wkt (ex_env (\<lambda>c. None) []) (Box ''0 0,0 2,2 2,2 0,0 0'')
       (''POLYGON((0 0,0 1,1 1,0 0))'' @ [CHR 0x0A]) ex_world =
     (Inr (Some ''MULTIPOLYGON(((expanded 0 0,0 2,2 2,2 0,0 0)),((0 0,0 1,1 1,0 0)))''), ex_world)"
  by (simp add: single_ring_form_def get_shade_wkt_def regexp_polygon_match_def wreturn_def
        ex_env_def)

lemma regexp_polygon_match_None:
  assumes "\<not> single_ring_form polygon"
    and "\<not> (polygon \<noteq> [] \<and> last polygon = CHR 0x0A \<and> single_ring_form (butlast polygon))"
  shows "regexp_polygon_match polygon = None"
proof (cases "regexp_polygon_match polygon")
  case None
  then show ?thesis .
next
  case (Some inside)
  from regexp_polygon_match_SomeD [OF Some]
  have nin: "CHR '')'' \<notin> set inside"
    and form: "polygon = ''POLYGON(('' @ inside @ ''))'' \<or>
               polygon = ''POLYGON(('' @ inside @ ''))'' @ [CHR 0x0A]" by blast+
  from form show ?thesis
  proof
    assume "polygon = ''POLYGON(('' @ inside @ ''))''"
    with nin have "single_ring_form polygon" unfolding single_ring_form_iff by blast
    with assms(1) show ?thesis by contradiction
  next
    assume p: "polygon = ''POLYGON(('' @ inside @ ''))'' @ [CHR 0x0A]"
    then have "butlast polygon = ''POLYGON(('' @ inside @ ''))''"
      by (simp add: butlast_append)
    with nin have "single_ring_form (butlast polygon)" unfolding single_ring_form_iff by blast
    moreover from p have "polygon \<noteq> [] \<and> last polygon = CHR 0x0A" by simp
    ultimately show ?thesis using assms(2) by blast
  qed
qed

text \<open>
  Claim C8, amended. For every bounding box and every polygon string that is neither of
  the single-ring form nor that form followed by one final newline, \<open>get_shade_wkt\<close>
  hands one record of level ERROR to the logger and returns \<^verbatim>\<open>None\<close>; it does not raise.
\<close>

theorem get_shade_wkt_not_single_ring:
  "\<not> single_ring_form polygon \<Longrightarrow>
   \<not> (polygon \<noteq> [] \<and> last polygon = CHR 0x0A \<and> single_ring_form (butlast polygon)) \<Longrightarrow>
   get_shade_wkt env bbox polygon w =
     (Inr None, w\<lparr>logged := logged w @ [(ERROR, ''Administrative boundary looks invalid!'', [])]\<rparr>)"
  by (simp add: get_shade_wkt_def regexp_polygon_match_None wbind_def wlog_def wreturn_def)

theorem get_shade_wkt_not_single_ring_witness:
  "\<not> single_ring_form ''POLYGON((0 0,0 3,3 3,0 0),(1 1,1 2,2 2,1 1))'' \<and>
   get_shade_wkt (ex_env (\<lambda>c. None) []) (Box ''0 0,0 2,2 2,2 0,0 0'')
       ''POLYGON((0 0,0 3,3 3,0 0),(1 1,1 2,2 2,1 1))'' ex_world =
     (Inr None, ex_world\<lparr>logged := [(ERROR, ''Administrative boundary looks invalid!'', [])]\<rparr>)"
proof -
  let ?p = "''POLYGON((0 0,0 3,3 3,0 0),(1 1,1 2,2 2,1 1))''"
  have h1: "\<not> single_ring_form ?p" by (simp add: single_ring_form_def)
  have h2: "\<not> (?p \<noteq> [] \<and> last ?p = CHR 0x0A \<and> single_ring_form (butlast ?p))" by simp
  from get_shade_wkt_not_single_ring [OF h1 h2, of "ex_env (\<lambda>c. None) []" "Box ''0 0,0 2,2 2,2 0,0 0''" ex_world]
  show ?thesis using h1 by (simp add: ex_world_def)
qed

subsection \<open>Output formats\<close>




subsection \<open>Steps of the world monad\<close>

lemma wbind_assoc: "wbind (wbind m f) g = wbind m (\<lambda>x. wbind (f x) g)"
  by (rule ext) (simp add: wbind_def split: prod.splits sum.splits)

lemma wbind_wreturn: "wbind (wreturn x) f w = f x w"
  by (simp add: wbind_def wreturn_def)

lemma wbind_wraise: "wbind (wraise e) f w = (Inl e, w)"
  by (simp add: wbind_def wraise_def)

lemma wbind_wlog:
  "wbind (wlog lvl fmt args) f w = f () (w\<lparr>logged := logged w @ [(lvl, fmt, args)]\<rparr>)"
  by (simp add: wbind_def wlog_def)

lemma wbind_Inr_iff:
  "wbind m f w = (Inr y, w') \<longleftrightarrow> (\<exists>x w1. m w = (Inr x, w1) \<and> f x w1 = (Inr y, w'))"
  by (auto simp: wbind_def split: prod.splits sum.splits)

lemma wbind_Inl_iff:
  "wbind m f w = (Inl e, w') \<longleftrightarrow>
     m w = (Inl e, w') \<or> (\<exists>x w1. m w = (Inr x, w1) \<and> f x w1 = (Inl e, w'))"
  by (auto simp: wbind_def split: prod.splits sum.splits)

lemma ext_ok:
  "raises env (calls w) c = None \<Longrightarrow> ext env ws c w = (Inr (), after_call env ws c w)"
  by (simp add: ext_def)

lemma ext_raise:
  "raises env (calls w) c = Some e \<Longrightarrow> ext env ws c w = (Inl e, after_call env ws c w)"
  by (simp add: ext_def)

lemma wbind_ext_ok:
  "raises env (calls w) c = None \<Longrightarrow> wbind (ext env ws c) f w = f () (after_call env ws c w)"
  by (simp add: wbind_def ext_def)

lemma wbind_ext_raise:
  "raises env (calls w) c = Some e \<Longrightarrow>
   wbind (ext env ws c) f w = (Inl e, after_call env ws c w)"
  by (simp add: wbind_def ext_def)

lemma ext_file_ok:
  "raises env (calls w) c = None \<Longrightarrow>
   ext_file env c fn w = (Inr (), add_file fn (after_call env None c w))"
  by (simp add: ext_file_def ext_def)

lemma ext_file_raise:
  "raises env (calls w) c = Some e \<Longrightarrow> ext_file env c fn w = (Inl e, after_call env None c w)"
  by (simp add: ext_file_def ext_def)

lemma wbind_ext_file_ok:
  "raises env (calls w) c = None \<Longrightarrow>
   wbind (ext_file env c fn) f w = f () (add_file fn (after_call env None c w))"
  by (simp add: wbind_def ext_file_ok)

lemma wbind_ext_file_raise:
  "raises env (calls w) c = Some e \<Longrightarrow>
   wbind (ext_file env c fn) f w = (Inl e, after_call env None c w)"
  by (simp add: wbind_def ext_file_raise)

lemma wbind_mkdtemp_ok:
  "raises env (calls w) Mkdtemp = None \<Longrightarrow> tmp w (mkdtemp_name env) = None \<Longrightarrow>
   wbind (mkdtemp env) f w =
     f (mkdtemp_name env)
       (w\<lparr>tmp := (tmp w)(mkdtemp_name env \<mapsto> []), calls := calls w @ [Mkdtemp]\<rparr>)"
  by (cases w) (simp add: mkdtemp_def wbind_def ext_def after_call_def)

lemma wbind_mkdtemp_raise:
  "raises env (calls w) Mkdtemp = Some e \<Longrightarrow>
   wbind (mkdtemp env) f w = (Inl e, w\<lparr>calls := calls w @ [Mkdtemp]\<rparr>)"
  by (cases w) (simp add: mkdtemp_def wbind_def ext_def after_call_def)

lemma wbind_get_shade_wkt:
  "wbind (get_shade_wkt env bbox polygon) f w =
     (case regexp_polygon_match polygon of
        None \<Rightarrow>
          f None (w\<lparr>logged := logged w @ [(ERROR, ''Administrative boundary looks invalid!'', [])]\<rparr>)
      | Some inside \<Rightarrow>
          f (Some (''MULTIPOLYGON((('' @ as_wkt env (create_expanded env bbox 0.05 0.05) False @
                   '')),(('' @ inside @ '')))'')) w)"
  by (simp add: get_shade_wkt_def wbind_def wlog_def wreturn_def Let_def split: option.splits)

lemma str_int_example: "str_int (- 7444) = ''-7444''"
  by (simp add: str_int_def str_nat.simps digit_char_def)

text \<open>The rules that run the model on a concrete world, one step at a time.\<close>

lemmas run_congs =
  prod.case_cong_weak sum.case_cong_weak option.case_cong_weak list.case_cong_weak

lemmas run_simps =
  wbind_assoc wbind_wreturn wbind_wraise wbind_wlog ext_ok ext_raise wbind_ext_ok wbind_ext_raise
  ext_file_ok ext_file_raise wbind_ext_file_ok wbind_ext_file_raise
  wbind_mkdtemp_ok wbind_mkdtemp_raise wbind_get_shade_wkt
  after_call_def add_file_def wreturn_def wraise_def wlog_def
  render_def render_resolve_def render_pipeline_def render_prepare_def render_shade_step_def
  render_one_def render_on_surface_def png_dpi_def try_finally_def cleanup_tempdir_def
  get_geographic_info_def get_shade_wkt_def regexp_polygon_match_def row_triple_def py_strip_def
  py_int_def strip_def is_space_def truthy_int_def str_bool_def bnd_def Let_def
  lower_def upper_def lower_char_def upper_char_def remove_files_def
  ex_env_def ex_world_def ex_config_def ex_rows_def ex_rows_null_def RenderingConfiguration_def
  str_int_example walk_cleanup.simps

subsection \<open>Runs of the render call on the example inputs\<close>

text \<open>
  Claim C2: the code does otherwise. With a bounding box and no area id, \<^verbatim>\<open>render\<close> still
  calls \<^verbatim>\<open>get_geographic_info([config.osmid])\<close>, and \<^verbatim>\<open>int(None)\<close> raises a TypeError that
  the \<^verbatim>\<open>except IndexError\<close> does not catch. The database is indeed not reached (the only
  collaborator called is the translation installer), but the call fails.
\<close>

theorem render_bounding_box_only_raises:
  "render (ex_env (\<lambda>c. None) ex_rows) (ex_config\<lparr>bounding_box := Some (Box ''0 0,0 2,2 2,2 0,0 0'')\<rparr>)
       ''plain'' [''pdf''] ''/tmp/mymap'' ex_world =
     (Inl (TypeError (''int() argument must be a string or a number, not 'NoneType'' @ [CHR 0x27])),
      ex_config\<lparr>bounding_box := Some (Box ''0 0,0 2,2 2,2 0,0 0''), rtl := Some False\<rparr>,
      ex_world\<lparr>logged := [(INFO, ''Rendering with renderer %s in language: %s (rtl: %s).'',
                              [''plain'', ''fr'', ''False''])],
               calls := [Install_translation (Some ''fr_FR.UTF-8'')]\<rparr>)"
  by (simp add: run_simps cong: run_congs)

text \<open>
  Claim C1: the code does otherwise. The temporary directory is made before the \<^verbatim>\<open>try\<close>,
  and the renderer, the shading and the street index run between the two. When the
  renderer's \<^verbatim>\<open>create_map_canvas\<close> raises, \<^verbatim>\<open>render\<close> raises with the directory, and what
  the renderer wrote into it, still on disk.
\<close>

theorem render_canvas_failure_leaves_workspace:
  "fst (render (ex_env (\<lambda>c. if c = Create_map_canvas then Some (ExternalError ''mapnik'') else None) ex_rows)
          (ex_config\<lparr>osmid := Some (- 7444)\<rparr>) ''plain'' [''pdf''] ''/tmp/mymap'' ex_world) =
     Inl (ExternalError ''mapnik'') \<and>
   tmp (snd (snd (render (ex_env (\<lambda>c. if c = Create_map_canvas then Some (ExternalError ''mapnik'') else None) ex_rows)
          (ex_config\<lparr>osmid := Some (- 7444)\<rparr>) ''plain'' [''pdf''] ''/tmp/mymap'' ex_world)))
       ''/tmp/ocitysmapXa3f9Q'' =
     Some [(''shapes'', Dir [(''grid.shp'', File)]), (''map.xml'', File)]"
  by (simp add: run_simps cong: run_congs)

subsection \<open>Geometry resolution\<close>

lemma py_strip_Inr: "py_strip v = Inr s \<longleftrightarrow> (\<exists>t. v = SqlText t \<and> s = strip t)"
  by (cases v) (auto simp: py_strip_def)

lemma row_triple_Inr:
  "row_triple x = Inr g \<longleftrightarrow>
     (\<exists>x0 e a cols. x = x0 # SqlText e # SqlText a # cols \<and> g = (x0, strip e, strip a))"
proof (cases x)
  case Nil
  then show ?thesis by (simp add: row_triple_def)
next
  case c1: (Cons x0 r1)
  show ?thesis
  proof (cases r1)
    case Nil
    with c1 show ?thesis by (simp add: row_triple_def)
  next
    case c2: (Cons x1 r2)
    show ?thesis
    proof (cases r2)
      case Nil
      with c1 c2 show ?thesis by (simp add: row_triple_def bnd_eq_Inr)
    next
      case c3: (Cons x2 r3)
      with c1 c2 show ?thesis by (auto simp: row_triple_def bnd_eq_Inr py_strip_Inr)
    qed
  qed
qed



lemma map_raising_Cons_Inr:
  "map_raising f xs = Inr (y # ys) \<longleftrightarrow>
     (\<exists>x rest. xs = x # rest \<and> f x = Inr y \<and> map_raising f rest = Inr ys)"
  by (cases xs) (auto simp: bnd_eq_Inr)



lemma wreturn_eq: "wreturn x w = (r, w') \<longleftrightarrow> r = Inr x \<and> w' = w"
  by (auto simp: wreturn_def)

lemma wraise_eq: "wraise e w = (r, w') \<longleftrightarrow> r = Inl e \<and> w' = w"
  by (auto simp: wraise_def)

lemma get_geographic_info_first_row:
  assumes "get_geographic_info env [v] w = (Inr (g # gs), w')"
  shows "\<exists>i x0 e a cols rest. v = Some i \<and>
           rows env [str_int i] = (x0 # SqlText e # SqlText a # cols) # rest \<and>
           g = (x0, strip e, strip a)"
proof (cases v)
  case None
  with assms show ?thesis by (simp add: get_geographic_info_def py_int_def bnd_def)
next
  case (Some i)
  with assms have "map_raising row_triple (rows env [str_int i]) = Inr (g # gs)"
    by (auto simp: get_geographic_info_def py_int_def bnd_def Let_def wbind_Inr_iff wreturn_eq
        wraise_eq split: sum.splits if_splits)
  then show ?thesis using Some
    by (auto simp: map_raising_Cons_Inr row_triple_Inr)
qed

lemma render_resolve_config:
  assumes "render_resolve env config rn w = (r, config', w')"
  shows "(config' = config \<or> config' = config\<lparr>rtl := Some (isrtl env)\<rparr> \<or>
     (bounding_box config = None \<and>
      (\<exists>i x0 e a cols rest. osmid config = Some i \<and>
         rows env [str_int i] = (x0 # SqlText e # SqlText a # cols) # rest \<and>
         config' = config\<lparr>rtl := Some (isrtl env),
                           bounding_box := Some (parse_wkt env (strip e))\<rparr>))) \<and>
     ((\<exists>info. r = Inr info) \<longrightarrow>
        rtl config' = Some (isrtl env) \<and> bounding_box config' \<noteq> None)"
proof -
  let ?c1 = "config\<lparr>rtl := Some (isrtl env)\<rparr>"
  show ?thesis
  proof (cases "\<not> (truthy_int (osmid config) \<or> bounding_box config \<noteq> None)")
    case True
    then show ?thesis using assms by (auto simp: render_resolve_def)
  next
    case ok: False
    show ?thesis
    proof (cases "ext env None (Install_translation (language config)) w")
      case (Pair r1 w1)
      show ?thesis
      proof (cases r1)
        case (Inl e)
        from ok Pair Inl assms show ?thesis by (auto simp: render_resolve_def)
      next
        case (Inr u)
        let ?w2 = "snd (wlog INFO ''Rendering with renderer %s in language: %s (rtl: %s).''
                              [rn, language_code env, str_bool (isrtl env)] w1)"
        obtain r3 w3 where g: "get_geographic_info env [osmid config] ?w2 = (r3, w3)"
          by (cases "get_geographic_info env [osmid config] ?w2") blast
        show ?thesis
        proof (cases r3)
          case (Inl e)
          from ok Pair Inr g Inl assms show ?thesis by (auto simp: render_resolve_def Let_def)
        next
          case infos: (Inr infos)
          show ?thesis
          proof (cases infos)
            case Nil
            from ok Pair Inr g infos Nil assms show ?thesis by (auto simp: render_resolve_def Let_def)
          next
            case (Cons info more)
            from get_geographic_info_first_row [of env "osmid config" ?w2 info more w3] g infos Cons
            obtain i x0 e a cols rest where row: "osmid config = Some i"
              "rows env [str_int i] = (x0 # SqlText e # SqlText a # cols) # rest"
              "info = (x0, strip e, strip a)" by auto
            show ?thesis
            proof (cases "bounding_box config")
              case (Some b)
              from ok Pair Inr g infos Cons Some assms show ?thesis
                by (auto simp: render_resolve_def Let_def)
            next
              case None
              from ok Pair Inr g infos Cons row None assms show ?thesis
                by (auto simp: render_resolve_def Let_def split: prod.splits sum.splits)
            qed
          qed
        qed
      qed
    qed
  qed
qed

subsection \<open>The configuration object across a render call\<close>

text \<open>
  Claim C4, as stated, fails: \<^verbatim>\<open>render\<close> assigns \<^verbatim>\<open>config.bounding_box\<close> ("Make sure we have
  a bounding box"). A configuration that comes with an area id and no bounding box leaves
  a successful call with the box parsed from the envelope of the area.
\<close>

theorem render_sets_bounding_box_counterexample:
  "bounding_box (ex_config\<lparr>osmid := Some (- 7444)\<rparr>) = None \<and>
   fst (render (ex_env (\<lambda>c. None) ex_rows) (ex_config\<lparr>osmid := Some (- 7444)\<rparr>)
          ''plain'' [''PDF'', ''png''] ''/tmp/mymap'' ex_world) = Inr () \<and>
   bounding_box (fst (snd (render (ex_env (\<lambda>c. None) ex_rows) (ex_config\<lparr>osmid := Some (- 7444)\<rparr>)
          ''plain'' [''PDF'', ''png''] ''/tmp/mymap'' ex_world))) =
     Some (Box ''POLYGON((1 1,1 3,3 3,3 1,1 1))'')"
  by (simp add: run_simps cong: run_congs)

text \<open>
  Claim C4, amended. Whatever the outcome of the call, the title, the area id, the
  language, the stylesheet and the paper width and height of the configuration are the
  same after it as before, and a bounding box that was given is the same too. When none
  was given, the bounding box is afterwards either still absent or the box parsed from the
  trimmed envelope text of the first row the database returned for the area id; the flag
  \<open>rtl\<close> is either untouched or the flag of the installed translation. Once the geometry
  resolution has succeeded, and so in particular whenever the call returns normally, the
  call has set both: \<open>rtl\<close> is the flag of the translation and a bounding box is present.
\<close>

theorem render_configuration_after:
  assumes "render env config rn fmts pfx w = (r, config', w')"
  shows "title config' = title config \<and> osmid config' = osmid config \<and>
     language config' = language config \<and> stylesheet config' = stylesheet config \<and>
     paper_width_mm config' = paper_width_mm config \<and>
     paper_height_mm config' = paper_height_mm config \<and>
     (bounding_box config \<noteq> None \<longrightarrow> bounding_box config' = bounding_box config) \<and>
     (bounding_box config = None \<longrightarrow>
        bounding_box config' = None \<or>
        (\<exists>i x0 e a cols rest. osmid config = Some i \<and>
           rows env [str_int i] = (x0 # SqlText e # SqlText a # cols) # rest \<and>
           bounding_box config' = Some (parse_wkt env (strip e)))) \<and>
     (rtl config' = rtl config \<or> rtl config' = Some (isrtl env)) \<and>
     ((\<exists>info c wa. render_resolve env config rn w = (Inr info, c, wa)) \<longrightarrow>
        rtl config' = Some (isrtl env) \<and> bounding_box config' \<noteq> None) \<and>
     (r = Inr () \<longrightarrow> rtl config' = Some (isrtl env) \<and> bounding_box config' \<noteq> None)"
proof -
  obtain r0 c0 w0 where res: "render_resolve env config rn w = (r0, c0, w0)"
    by (cases "render_resolve env config rn w") auto
  with assms have c: "config' = c0"
    by (auto simp: render_def Let_def split: sum.splits prod.splits)
  from assms res have ok: "r = Inr () \<Longrightarrow> \<exists>info. r0 = Inr info"
    by (cases r0) (auto simp: render_def Let_def)
  from render_resolve_config [OF res] c res ok show ?thesis by auto
qed

theorem render_configuration_after_witness:
  "title (fst (snd (render (ex_env (\<lambda>c. None) ex_rows)
        (ex_config\<lparr>osmid := Some (- 7444), bounding_box := Some (Box ''0 0,0 2,2 2,2 0,0 0'')\<rparr>)
        ''plain'' [''PDF'', ''png''] ''/tmp/mymap'' ex_world))) = Some ''Chevreuse, Yvelines'' \<and>
   bounding_box (fst (snd (render (ex_env (\<lambda>c. None) ex_rows)
        (ex_config\<lparr>osmid := Some (- 7444), bounding_box := Some (Box ''0 0,0 2,2 2,2 0,0 0'')\<rparr>)
        ''plain'' [''PDF'', ''png''] ''/tmp/mymap'' ex_world))) = Some (Box ''0 0,0 2,2 2,2 0,0 0'') \<and>
   bounding_box (fst (snd (render (ex_env (\<lambda>c. None) ex_rows)
        (ex_config\<lparr>osmid := Some (- 7444)\<rparr>)
        ''plain'' [''PDF'', ''png''] ''/tmp/mymap'' ex_world))) =
     Some (Box (strip ''POLYGON((1 1,1 3,3 3,3 1,1 1))'')) \<and>
   rtl (fst (snd (render (ex_env (\<lambda>c. None) ex_rows)
        (ex_config\<lparr>osmid := Some (- 7444)\<rparr>)
        ''plain'' [''PDF'', ''png''] ''/tmp/mymap'' ex_world))) = Some False"
proof -
  let ?E = "ex_env (\<lambda>c. None) ex_rows"
  let ?C = "ex_config\<lparr>osmid := Some (- 7444), bounding_box := Some (Box ''0 0,0 2,2 2,2 0,0 0'')\<rparr>"
  let ?D = "ex_config\<lparr>osmid := Some (- 7444)\<rparr>"
  let ?R = "render ?E ?C ''plain'' [''PDF'', ''png''] ''/tmp/mymap'' ex_world"
  let ?S = "render ?E ?D ''plain'' [''PDF'', ''png''] ''/tmp/mymap'' ex_world"
  have run: "?R = (fst ?R, fst (snd ?R), snd (snd ?R))" by simp
  have given: "bounding_box ?C \<noteq> None" by simp
  have t: "title ?C = Some ''Chevreuse, Yvelines''" by (simp add: ex_config_def RenderingConfiguration_def)
  from render_configuration_after [OF run] given t
  have a: "title (fst (snd ?R)) = Some ''Chevreuse, Yvelines'' \<and>
           bounding_box (fst (snd ?R)) = Some (Box ''0 0,0 2,2 2,2 0,0 0'')" by simp
  have run2: "?S = (fst ?S, fst (snd ?S), snd (snd ?S))" by simp
  have absent: "bounding_box ?D = None" by (simp add: ex_config_def RenderingConfiguration_def)
  have ok: "fst ?S = Inr ()" by (simp add: run_simps cong: run_congs)
  from render_configuration_after [OF run2] ok
  have set: "rtl (fst (snd ?S)) = Some (isrtl ?E) \<and> bounding_box (fst (snd ?S)) \<noteq> None"
    by blast
  from render_configuration_after [OF run2] absent
  have "bounding_box (fst (snd ?S)) = None \<or>
        (\<exists>i x0 e a cols rest. osmid ?D = Some i \<and>
           rows ?E [str_int i] = (x0 # SqlText e # SqlText a # cols) # rest \<and>
           bounding_box (fst (snd ?S)) = Some (parse_wkt ?E (strip e)))" by blast
  with set have b: "bounding_box (fst (snd ?S)) = Some (Box (strip ''POLYGON((1 1,1 3,3 3,3 1,1 1))''))"
    by (auto simp: ex_env_def ex_rows_def)
  from set have c: "rtl (fst (snd ?S)) = Some False" by (simp add: ex_env_def)
  from a b c show ?thesis by blast
qed

subsection \<open>A row whose polygon is null\<close>






subsection \<open>The workspace and the output files along the pipeline\<close>



































subsection \<open>Output formats through the render call\<close>



subsection \<open>A failure while an output format is produced\<close>



end
